theory Spec2Isabelle
  imports Complex_Main
begin

section \<open>Historical weather scraper: data model\<close>

text \<open>
  The development follows \<^verbatim>\<open>src/scraper/get_historical_from_open-meteo.py\<close>; the copy of
  the function in \<^verbatim>\<open>src/scripts/get_open-meteo_data/get_historical.py\<close> has the same body
  line for line.
\<close>

subsection \<open>Python floats\<close>

text \<open>
  A Python \<^verbatim>\<open>float\<close> is a finite value, an infinity or NaN. The function only compares
  its float arguments with the integer literals \<^verbatim>\<open>-90\<close>, \<^verbatim>\<open>90\<close>, \<^verbatim>\<open>0\<close> and \<^verbatim>\<open>180\<close>, and
  Python compares a float with an integer exactly, so a finite float is modelled by the
  real number it denotes. Every ordered comparison with NaN is false.
\<close>

datatype pyfloat = Finite real | PosInf | NegInf | NaN

fun float_less :: "pyfloat \<Rightarrow> pyfloat \<Rightarrow> bool" where
  "float_less NaN _ = False"
| "float_less _ NaN = False"
| "float_less (Finite a) (Finite b) = (a < b)"
| "float_less (Finite _) PosInf = True"
| "float_less (Finite _) NegInf = False"
| "float_less PosInf _ = False"
| "float_less NegInf NegInf = False"
| "float_less NegInf _ = True"

definition float_greater :: "pyfloat \<Rightarrow> pyfloat \<Rightarrow> bool" where
  "float_greater a b = float_less b a"

subsection \<open>Calendar dates and \<^verbatim>\<open>datetime.date.fromisoformat\<close>\<close>

record date =
  year :: nat
  month :: nat
  day :: nat

definition is_leap :: "nat \<Rightarrow> bool" where
  "is_leap y \<longleftrightarrow> y mod 4 = 0 \<and> (y mod 100 \<noteq> 0 \<or> y mod 400 = 0)"

definition days_in_month :: "nat \<Rightarrow> nat \<Rightarrow> nat" where
  "days_in_month y m =
     (if m = 2 \<and> is_leap y then 29
      else [0, 31, 28, 31, 30, 31, 30, 31, 31, 30, 31, 30, 31] ! m)"

text \<open>The constructor \<^verbatim>\<open>date(year, month, day)\<close>: \<^verbatim>\<open>ValueError\<close> (here \<open>None\<close>) outside
  the proleptic Gregorian calendar of the years 1 to 9999.\<close>

definition new_date :: "nat \<Rightarrow> nat \<Rightarrow> nat \<Rightarrow> date option" where
  "new_date y m d =
     (if y < 1 \<or> 9999 < y then None
      else if m < 1 \<or> 12 < m then None
      else if d < 1 \<or> days_in_month y m < d then None
      else Some \<lparr>year = y, month = m, day = d\<rparr>)"

definition is_digit :: "char \<Rightarrow> bool" where
  "is_digit c \<longleftrightarrow> (48::nat) \<le> of_char c \<and> of_char c \<le> (57::nat)"

definition digit_val :: "char \<Rightarrow> nat" where
  "digit_val c = of_char c - 48"

definition parse_digits :: "string \<Rightarrow> nat option" where
  "parse_digits cs =
     (if list_all is_digit cs then Some (foldl (\<lambda>v c. v * 10 + digit_val c) 0 cs)
      else None)"

text \<open>
  Modelled from the spec: \<^verbatim>\<open>datetime.date.fromisoformat\<close> belongs to the Python standard
  library and is not among the sources. The spec's reading is the calendar form
  \<^verbatim>\<open>YYYY-MM-DD\<close>, which is what the function accepts in Python 3.7 to 3.10: a string of
  exactly ten characters, four digits, a hyphen, two digits, a hyphen, two digits, whose
  numbers make a date. (From Python 3.11 on the library also reads the undelimited and
  the week-date forms.) \<open>None\<close> stands for \<^verbatim>\<open>ValueError\<close>.
\<close>

definition fromisoformat :: "string \<Rightarrow> date option" where
  "fromisoformat s =
     (if length s \<noteq> 10 then None
      else (case parse_digits (take 4 s) of
        None \<Rightarrow> None
      | Some y \<Rightarrow>
          if s ! 4 \<noteq> CHR ''-'' then None
          else (case parse_digits (take 2 (drop 5 s)) of
            None \<Rightarrow> None
          | Some m \<Rightarrow>
              if s ! 7 \<noteq> CHR ''-'' then None
              else (case parse_digits (take 2 (drop 8 s)) of
                None \<Rightarrow> None
              | Some d \<Rightarrow> new_date y m d))))"

text \<open>Python orders dates as the triples (year, month, day).\<close>

definition date_less :: "date \<Rightarrow> date \<Rightarrow> bool" where
  "date_less a b \<longleftrightarrow>
     year a < year b \<or> (year a = year b \<and>
       (month a < month b \<or> (month a = month b \<and> day a < day b)))"

subsection \<open>Errors\<close>

text \<open>
  \<open>InvalidParameters\<close> is the repository's exception (\<^verbatim>\<open>src/scraper/exc.py\<close>) with its
  message. The others are what the libraries raise: the provider client after its
  retries (\<open>ProviderFailure\<close>), \<^verbatim>\<open>responses[0]\<close> on an empty list, a method call on
  \<^verbatim>\<open>None\<close>, a timestamp or a step that \<^verbatim>\<open>pandas\<close> cannot represent, a zero step in
  \<^verbatim>\<open>date_range\<close>, and the data frame constructor.
\<close>

datatype 'e error =
    InvalidParameters string
  | ProviderFailure 'e
  | IndexError
  | AttributeError
  | OutOfBoundsDatetime
  | OutOfBoundsTimedelta
  | ZeroDivisionError
  | ValueError

subsection \<open>The provider's request and response\<close>

text \<open>The dictionary \<^verbatim>\<open>params\<close> of lines 92 to 98, a field for each of its keys.\<close>

record params =
  param_latitude :: pyfloat
  param_longitude :: pyfloat
  param_start_date :: string
  param_end_date :: string
  param_hourly :: "string list"

text \<open>
  The hourly block of a response, by its accessors. \<open>Time\<close>, \<open>TimeEnd\<close> and \<open>Interval\<close>
  are seconds. \<open>Variables h j\<close> is \<^verbatim>\<open>hourly.Variables(j).ValuesAsNumpy()\<close>: the accessor
  returns \<^verbatim>\<open>None\<close> when the block holds no variables, and the method call on it then
  raises \<^verbatim>\<open>AttributeError\<close>. The function never compares \<open>j\<close> with the number of
  variables, so the block is taken by what its accessor answers at each index.
\<close>

record 'v hourly_block =
  Time :: int
  TimeEnd :: int
  Interval :: int
  Variables :: "nat \<Rightarrow> 'v list option"

record 'v response =
  Latitude :: pyfloat
  Longitude :: pyfloat
  Elevation :: pyfloat
  Timezone :: string
  TimezoneAbbreviation :: string
  UtcOffsetSeconds :: int
  Hourly :: "'v hourly_block"

text \<open>The provider client \<^verbatim>\<open>openmeteo.weather_api(url, params=params)\<close>: it returns the
  list of responses or raises its own error.\<close>

type_synonym ('e, 'v) provider = "string \<Rightarrow> params \<Rightarrow> 'e + 'v response list"

subsection \<open>Effects\<close>

text \<open>
  What a call does besides returning: it opens the on-disk HTTP cache when it builds
  the cached session (line 61; the retry wrapper and the client of lines 62 and 63 are
  plain objects around it), it writes log records, and it calls the provider.
\<close>

datatype log_record =
    Message string
  | Coordinates pyfloat pyfloat
  | ElevationRecord pyfloat
  | TimezoneRecord string string
  | UtcOffsetRecord int

datatype event =
    CachedSession string int
  | LoggerInfo log_record
  | WeatherApi string params

subsection \<open>Tables\<close>

text \<open>A column is the timestamp index (seconds since the epoch, UTC) or an array of
  values; a data frame is its columns in insertion order and its number of rows.\<close>

datatype 'v series = Dates "int list" | Values "'v list"

fun series_len :: "'v series \<Rightarrow> nat" where
  "series_len (Dates ts) = length ts"
| "series_len (Values vs) = length vs"

record 'v dataframe =
  nrows :: nat
  columns :: "(string \<times> 'v series) list"

text \<open>
  \<^verbatim>\<open>pandas.DataFrame(data=d)\<close> for a dictionary of one-dimensional arrays: the columns are
  the dictionary's entries in order; arrays of different lengths are refused with a
  \<^verbatim>\<open>ValueError\<close> (\<^verbatim>\<open>All arrays must be of the same length\<close>).
\<close>

definition DataFrame :: "(string \<times> 'v series) list \<Rightarrow> 'e error + 'v dataframe" where
  "DataFrame data =
     (let lengths = remdups (map (series_len \<circ> snd) data) in
      if 1 < length lengths then Inl ValueError
      else Inr \<lparr>nrows = (case lengths of [] \<Rightarrow> 0 | n # _ \<Rightarrow> n), columns = data\<rparr>)"

text \<open>
  \<^verbatim>\<open>pandas\<close> keeps a timestamp and a duration as a signed 64-bit count of nanoseconds, so
  a whole number of seconds is representable up to \<open>9223372036\<close> in absolute value.
  \<^verbatim>\<open>pd.to_datetime(t, unit="s", utc=True)\<close> raises \<^verbatim>\<open>OutOfBoundsDatetime\<close> beyond it, and
  \<^verbatim>\<open>pd.Timedelta(seconds=n)\<close> raises its overflow error.
\<close>

definition timestamp_bound :: int where
  "timestamp_bound = 9223372036"

definition to_datetime :: "int \<Rightarrow> 'e error + int" where
  "to_datetime t =
     (if - timestamp_bound \<le> t \<and> t \<le> timestamp_bound then Inr t
      else Inl OutOfBoundsDatetime)"

definition Timedelta :: "int \<Rightarrow> 'e error + int" where
  "Timedelta seconds =
     (if - timestamp_bound \<le> seconds \<and> seconds \<le> timestamp_bound then Inr seconds
      else Inl OutOfBoundsTimedelta)"

text \<open>
  The expression of lines 120 to 125, on seconds:
  \<^verbatim>\<open>pd.date_range(start=pd.to_datetime(start, unit="s", utc=True),
  end=pd.to_datetime(finish, unit="s", utc=True), freq=pd.Timedelta(seconds=freq),
  inclusive="left")\<close>. The three arguments are converted in this order. The library
  divides by the step, so a zero step raises \<^verbatim>\<open>ZeroDivisionError\<close>. When start and end are
  the same instant the range is that one instant: \<^verbatim>\<open>inclusive="left"\<close> drops the right end
  only when it differs from the start. Otherwise the range holds the instants
  \<open>start + k * freq\<close> for \<open>k = 0, 1, \<dots>\<close> that lie strictly before the end in the direction
  of the step.
\<close>

definition date_range :: "int \<Rightarrow> int \<Rightarrow> int \<Rightarrow> 'e error + int list" where
  "date_range start finish freq =
     (case to_datetime start of
        Inl e \<Rightarrow> Inl e
      | Inr b \<Rightarrow>
     (case to_datetime finish of
        Inl e \<Rightarrow> Inl e
      | Inr f \<Rightarrow>
     (case Timedelta freq of
        Inl e \<Rightarrow> Inl e
      | Inr stride \<Rightarrow>
          if stride = 0 then Inl ZeroDivisionError
          else if b = f then Inr [b]
          else Inr (map (\<lambda>k. b + int k * stride) [0..<nat (- ((b - f) div stride))]))))"

section \<open>The function\<close>

text \<open>The default of the parameter \<^verbatim>\<open>fields\<close> (line 29).\<close>

definition default_fields :: "string list" where
  "default_fields = [''snowfall'', ''wind_speed_10m'', ''wind_gusts_10m'']"

definition url :: string where
  "url = ''https://archive-api.open-meteo.com/v1/archive''"

definition latitude_message :: string where
  "latitude_message = ''Invalid latitude given! Latitude must be within -90 to 90''"

definition longitude_message :: string where
  "longitude_message = ''Invalid longitude given! Longitude must be within 0 to 180''"

definition format_message :: "string \<Rightarrow> string \<Rightarrow> string" where
  "format_message start_date end_date =
     ''Invalid start_date '' @ start_date @ '' or end_date '' @ end_date @
     '' found. Please given the start and end dates in ISO format, i.e. YYYY-MM-DD''"

definition order_message :: string where
  "order_message = ''End date cannot be before start date!''"

text \<open>
  \<^verbatim>\<open>get_historical_weather_at_given_coordinates\<close>, lines 24 to 131, top to bottom. The
  result is what the call returns or raises, with the events up to that point.
\<close>

definition get_historical_weather_at_given_coordinates ::
  "('e, 'v) provider \<Rightarrow> pyfloat \<Rightarrow> pyfloat \<Rightarrow> string \<Rightarrow> string \<Rightarrow> string list
     \<Rightarrow> ('e error + 'v dataframe) \<times> event list" where
  "get_historical_weather_at_given_coordinates weather_api latitude longitude start_date
       end_date field_names =
     (let w0 = [CachedSession ''.cache'' (- 1)] in
      if float_less latitude (Finite (- 90)) \<or> float_greater latitude (Finite 90) then
        (Inl (InvalidParameters latitude_message), w0)
      else if float_less longitude (Finite 0) \<or> float_greater longitude (Finite 180) then
        (Inl (InvalidParameters longitude_message), w0)
      else (case fromisoformat start_date of
        None \<Rightarrow> (Inl (InvalidParameters (format_message start_date end_date)), w0)
      | Some start_date_parsed \<Rightarrow>
      (case fromisoformat end_date of
        None \<Rightarrow> (Inl (InvalidParameters (format_message start_date end_date)), w0)
      | Some end_date_parsed \<Rightarrow>
      (if date_less end_date_parsed start_date_parsed then
        (Inl (InvalidParameters order_message), w0)
      else
        (let prms = \<lparr>param_latitude = latitude, param_longitude = longitude,
                      param_start_date = start_date, param_end_date = end_date,
                      param_hourly = field_names\<rparr>;
             w1 = w0 @ [LoggerInfo (Message ''Calling the Open-Meteo API ...''),
                        WeatherApi url prms]
         in (case weather_api url prms of
          Inl e \<Rightarrow> (Inl (ProviderFailure e), w1)
        | Inr responses \<Rightarrow>
        (case responses of
          [] \<Rightarrow> (Inl IndexError, w1)
        | response # _ \<Rightarrow>
          (let w2 = w1 @
                 [LoggerInfo (Message ''Corresponding input query parameters are:''),
                  LoggerInfo (Coordinates (Latitude response) (Longitude response)),
                  LoggerInfo (ElevationRecord (Elevation response)),
                  LoggerInfo (TimezoneRecord (Timezone response)
                     (TimezoneAbbreviation response)),
                  LoggerInfo (UtcOffsetRecord (UtcOffsetSeconds response))];
               hourly_block = Hourly response
           in (case Variables hourly_block 0 of
            None \<Rightarrow> (Inl AttributeError, w2)
          | Some hourly_snowfall \<Rightarrow>
          (case Variables hourly_block 1 of
            None \<Rightarrow> (Inl AttributeError, w2)
          | Some hourly_wind_speed_10m \<Rightarrow>
          (case Variables hourly_block 2 of
            None \<Rightarrow> (Inl AttributeError, w2)
          | Some hourly_wind_gusts_10m \<Rightarrow>
          (case date_range (Time hourly_block) (TimeEnd hourly_block)
                  (Interval hourly_block) of
            Inl e \<Rightarrow> (Inl e, w2)
          | Inr dates \<Rightarrow>
            (let hourly_data =
                   [(''date'', Dates dates),
                    (''snowfall'', Values hourly_snowfall),
                    (''wind_speed_10m'', Values hourly_wind_speed_10m),
                    (''wind_gusts_10m'', Values hourly_wind_gusts_10m)]
             in (DataFrame hourly_data, w2))))))))))))))"

section \<open>The specification's notions\<close>

subsection \<open>Query invariant\<close>

text \<open>The data model of the specification: \<open>-90 \<le> latitude \<le> 90\<close> and
  \<open>0 \<le> longitude \<le> 180\<close>, bounds included. NaN and the infinities are in no range.\<close>

definition latitude_in_range :: "pyfloat \<Rightarrow> bool" where
  "latitude_in_range x = (case x of Finite r \<Rightarrow> - 90 \<le> r \<and> r \<le> 90 | _ \<Rightarrow> False)"

definition longitude_in_range :: "pyfloat \<Rightarrow> bool" where
  "longitude_in_range x = (case x of Finite r \<Rightarrow> 0 \<le> r \<and> r \<le> 180 | _ \<Rightarrow> False)"

subsection \<open>ISO calendar dates\<close>

text \<open>
  The text of a date, as \<^verbatim>\<open>date.isoformat\<close> writes it (\<^verbatim>\<open>"%04d-%02d-%02d"\<close>): four, two
  and two decimal digits with leading zeros, hyphens between them. A string is a valid
  ISO calendar date when it is the text of a date of the calendar.
\<close>

definition digit_char :: "nat \<Rightarrow> char" where
  "digit_char k = char_of (48 + k)"

fun zero_pad :: "nat \<Rightarrow> nat \<Rightarrow> string" where
  "zero_pad 0 v = []"
| "zero_pad (Suc n) v = zero_pad n (v div 10) @ [digit_char (v mod 10)]"

definition valid_date :: "date \<Rightarrow> bool" where
  "valid_date d \<longleftrightarrow> 1 \<le> year d \<and> year d \<le> 9999 \<and> 1 \<le> month d \<and> month d \<le> 12 \<and>
     1 \<le> day d \<and> day d \<le> days_in_month (year d) (month d)"

definition isoformat :: "date \<Rightarrow> string" where
  "isoformat d = zero_pad 4 (year d) @ ''-'' @ zero_pad 2 (month d) @ ''-'' @ zero_pad 2 (day d)"

definition is_iso_calendar_date :: "string \<Rightarrow> bool" where
  "is_iso_calendar_date s \<longleftrightarrow> (\<exists>d. valid_date d \<and> s = isoformat d)"

subsection \<open>The validation rules, in the specification's order\<close>

text \<open>
  Section 4.1 of the specification: latitude outside its range, then longitude outside
  its range, then a date string that is not a valid ISO calendar date, then an end date
  strictly before the start date. The value is the message of the first rule violated,
  \<open>None\<close> when the query passes all four.
\<close>

definition first_violation :: "pyfloat \<Rightarrow> pyfloat \<Rightarrow> string \<Rightarrow> string \<Rightarrow> string option" where
  "first_violation latitude longitude start_date end_date =
     (if float_less latitude (Finite (- 90)) \<or> float_less (Finite 90) latitude
        then Some latitude_message
      else if float_less longitude (Finite 0) \<or> float_less (Finite 180) longitude
        then Some longitude_message
      else if \<not> is_iso_calendar_date start_date \<or> \<not> is_iso_calendar_date end_date
        then Some (format_message start_date end_date)
      else if date_less (the (fromisoformat end_date)) (the (fromisoformat start_date))
        then Some order_message
      else None)"

subsection \<open>Rows of a table\<close>

text \<open>Row \<open>i\<close> of a data frame (\<^verbatim>\<open>df.iloc[i]\<close>): the cell of every column at position
  \<open>i\<close>, under the column's name; there is no row at or beyond the number of rows.\<close>

datatype 'v cell = Instant int | Number 'v

definition row :: "'v dataframe \<Rightarrow> nat \<Rightarrow> (string \<times> 'v cell) list option" where
  "row df i =
     (if i < nrows df
      then Some (map (\<lambda>(name, col). (name, case col of Dates ts \<Rightarrow> Instant (ts ! i)
                                               | Values vs \<Rightarrow> Number (vs ! i))) (columns df))
      else None)"

subsection \<open>Providers for the examples\<close>

text \<open>
  \<open>failing_provider\<close> raises on every request. \<open>fixture_provider\<close> answers as the
  provider's contract says, positionally: variable \<open>j\<close> of its response holds the values
  of the \<open>j\<close>-th requested field, three hourly observations from 2024-01-01T00:00Z.
  \<open>mismatched_provider\<close> returns a second variable that is one value short.
  \<open>empty_provider\<close> answers positionally with no observation at all: its end is its
  start and every array is empty.
\<close>

definition failing_provider :: "(unit, real) provider" where
  "failing_provider u prms = Inl ()"

definition fixture_values :: "string \<Rightarrow> real list" where
  "fixture_values name =
     (if name = ''snowfall'' then [0, 0, 1]
      else if name = ''wind_speed_10m'' then [10, 11, 12]
      else if name = ''wind_gusts_10m'' then [20, 21, 22]
      else [7, 8, 9])"

definition fixture_provider :: "(unit, real) provider" where
  "fixture_provider u prms =
     Inr [\<lparr>Latitude = param_latitude prms, Longitude = param_longitude prms,
           Elevation = Finite 0, Timezone = ''GMT'', TimezoneAbbreviation = ''GMT'',
           UtcOffsetSeconds = 0,
           Hourly = \<lparr>Time = 1704067200, TimeEnd = 1704078000, Interval = 3600,
                     Variables = (\<lambda>j. if j < length (param_hourly prms)
                        then Some (fixture_values (param_hourly prms ! j)) else None)\<rparr>\<rparr>]"


definition empty_provider :: "(unit, real) provider" where
  "empty_provider u prms =
     Inr [\<lparr>Latitude = param_latitude prms, Longitude = param_longitude prms,
           Elevation = Finite 0, Timezone = ''GMT'', TimezoneAbbreviation = ''GMT'',
           UtcOffsetSeconds = 0,
           Hourly = \<lparr>Time = 1704067200, TimeEnd = 1704067200, Interval = 3600,
                     Variables = (\<lambda>j. if j < length (param_hourly prms)
                        then Some [] else None)\<rparr>\<rparr>]"

section \<open>Parsing and printing dates\<close>

lemma zero_pad_numeral:
  "zero_pad (numeral k) v = zero_pad (pred_numeral k) (v div 10) @ [digit_char (v mod 10)]"
  by (simp only: numeral_eq_Suc [of k] zero_pad.simps)

lemma digit_val_digit_char: "k < 10 \<Longrightarrow> digit_val (digit_char k) = k"
  by (simp add: digit_val_def digit_char_def)

lemma is_digit_digit_char: "k < 10 \<Longrightarrow> is_digit (digit_char k)"
  by (simp add: is_digit_def digit_char_def)

lemma digit_char_digit_val: "is_digit c \<Longrightarrow> digit_char (digit_val c) = c"
  by (simp add: is_digit_def digit_val_def digit_char_def)

lemma digit_val_less: "is_digit c \<Longrightarrow> digit_val c < 10"
  by (auto simp add: is_digit_def digit_val_def)

lemma length_zero_pad [simp]: "length (zero_pad n v) = n"
  by (induction n arbitrary: v) simp_all

lemma zero_pad_digits: "list_all is_digit (zero_pad n v)"
  by (induction n arbitrary: v) (simp_all add: is_digit_digit_char)

lemma value_zero_pad:
  "foldl (\<lambda>v c. v * 10 + digit_val c) 0 (zero_pad n v) = v mod 10 ^ n"
proof (induction n arbitrary: v)
  case 0
  show ?case by simp
next
  case (Suc n)
  have "foldl (\<lambda>v c. v * 10 + digit_val c) 0 (zero_pad (Suc n) v)
      = (v div 10 mod 10 ^ n) * 10 + v mod 10"
    by (simp add: Suc.IH digit_val_digit_char)
  also have "\<dots> = v mod (10 * 10 ^ n)"
    by (simp only: mod_mult2_eq mult.commute)
  finally show ?case by simp
qed

lemma zero_pad_value:
  "list_all is_digit cs \<Longrightarrow>
     zero_pad (length cs) (foldl (\<lambda>v c. v * 10 + digit_val c) 0 cs) = cs"
proof (induction cs rule: rev_induct)
  case Nil
  show ?case by simp
next
  case (snoc x xs)
  then show ?case
    by (simp add: digit_val_less digit_char_digit_val)
qed

lemma parse_digits_zero_pad: "parse_digits (zero_pad n v) = Some (v mod 10 ^ n)"
  by (simp add: parse_digits_def zero_pad_digits value_zero_pad)

lemma parse_digits_Some:
  "parse_digits cs = Some v \<Longrightarrow> zero_pad (length cs) v = cs"
  by (auto simp add: parse_digits_def zero_pad_value split: if_splits)

lemma new_date_Some:
  "new_date y m d = Some dt \<longleftrightarrow> valid_date dt \<and> year dt = y \<and> month dt = m \<and> day dt = d"
  by (auto simp add: new_date_def valid_date_def)

lemma length10:
  "length s = 10 \<Longrightarrow> \<exists>c0 c1 c2 c3 c4 c5 c6 c7 c8 c9. s = [c0, c1, c2, c3, c4, c5, c6, c7, c8, c9]"
  by (auto simp add: numeral_eq_Suc length_Suc_conv)

lemma split10:
  assumes "length s = 10"
  shows "s = take 4 s @ [s ! 4] @ take 2 (drop 5 s) @ [s ! 7] @ take 2 (drop 8 s)"
  using length10 [OF assms] by (elim exE) simp

lemma days_in_month_le: "m \<le> 12 \<Longrightarrow> days_in_month y m \<le> 31"
proof -
  assume "m \<le> 12"
  then have "m \<in> {0, 1, 2, 3, 4, 5, 6, 7, 8, 9, 10, 11, 12}" by (simp; arith)
  then show ?thesis by (auto simp add: days_in_month_def)
qed

text \<open>The parser reads exactly the texts of the dates of the calendar, and reads each
  back as the date it is the text of.\<close>

lemma fromisoformat_Some:
  assumes "fromisoformat s = Some d"
  shows "valid_date d \<and> s = isoformat d"
proof -
  from assms have len: "length s = 10"
    by (simp add: fromisoformat_def split: if_splits)
  from assms len obtain y m dd where
    y: "parse_digits (take 4 s) = Some y" and
    m: "parse_digits (take 2 (drop 5 s)) = Some m" and
    dd: "parse_digits (take 2 (drop 8 s)) = Some dd" and
    sep: "s ! 4 = CHR ''-''" "s ! 7 = CHR ''-''" and
    nd: "new_date y m dd = Some d"
    by (auto simp add: fromisoformat_def split: if_splits option.splits)
  from nd have v: "valid_date d" and f: "year d = y" "month d = m" "day d = dd"
    by (simp_all add: new_date_Some)
  from parse_digits_Some [OF y] len have py: "zero_pad 4 y = take 4 s" by simp
  from parse_digits_Some [OF m] len have pm: "zero_pad 2 m = take 2 (drop 5 s)" by simp
  from parse_digits_Some [OF dd] len have pd: "zero_pad 2 dd = take 2 (drop 8 s)" by simp
  have "isoformat d = take 4 s @ [s ! 4] @ take 2 (drop 5 s) @ [s ! 7] @ take 2 (drop 8 s)"
    by (simp only: isoformat_def f py pm pd sep)
  with split10 [OF len] v show ?thesis by simp
qed

lemma fromisoformat_isoformat:
  assumes "valid_date d"
  shows "fromisoformat (isoformat d) = Some d"
proof -
  from assms have y: "year d mod 10 ^ 4 = year d" by (simp add: valid_date_def)
  from assms have m: "month d mod 10 ^ 2 = month d" by (simp add: valid_date_def)
  from assms have "day d \<le> 31"
    using days_in_month_le [of "month d" "year d"] by (simp add: valid_date_def)
  then have dd: "day d mod 10 ^ 2 = day d" by simp
  have nd: "new_date (year d) (month d) (day d) = Some d"
    using assms by (simp add: new_date_Some)
  show ?thesis
    by (simp add: fromisoformat_def isoformat_def nth_append parse_digits_zero_pad y m dd nd
        del: zero_pad.simps power_numeral)
qed

lemma fromisoformat_iff:
  "fromisoformat s = Some d \<longleftrightarrow> valid_date d \<and> s = isoformat d"
  using fromisoformat_Some fromisoformat_isoformat by blast

lemma is_iso_calendar_date_iff:
  "is_iso_calendar_date s \<longleftrightarrow> fromisoformat s \<noteq> None"
  unfolding is_iso_calendar_date_def using fromisoformat_iff by (metis option.exhaust option.distinct(1))

lemma fixture_dates:
  "fromisoformat ''2024-01-01'' = Some \<lparr>year = 2024, month = 1, day = 1\<rparr>"
  "fromisoformat ''2024-01-02'' = Some \<lparr>year = 2024, month = 1, day = 2\<rparr>"
  "fromisoformat ''2024-02-01'' = Some \<lparr>year = 2024, month = 2, day = 1\<rparr>"
  "fromisoformat ''2024-02-29'' = Some \<lparr>year = 2024, month = 2, day = 29\<rparr>"
  "fromisoformat ''2024-13-40'' = None"
  "fromisoformat ''2024-W01-1'' = None"
  "fromisoformat ''20240101'' = None"
  by (simp_all add: fromisoformat_def parse_digits_def is_digit_def digit_val_def
      new_date_def days_in_month_def is_leap_def)

lemma isoformat_fixture:
  "isoformat \<lparr>year = 2024, month = 2, day = 29\<rparr> = ''2024-02-29''"
  by (simp add: isoformat_def digit_char_def zero_pad_numeral char_of_def bit_0)

section \<open>The two phases of a call\<close>

lemma latitude_in_range_less:
  "latitude_in_range x \<Longrightarrow> \<not> float_less x (Finite (- 90)) \<and> \<not> float_less (Finite 90) x"
  by (cases x) (simp_all add: latitude_in_range_def)

lemma longitude_in_range_less:
  "longitude_in_range x \<Longrightarrow> \<not> float_less x (Finite 0) \<and> \<not> float_less (Finite 180) x"
  by (cases x) (simp_all add: longitude_in_range_def)

lemma messages_distinct:
  "latitude_message \<noteq> longitude_message"
  "latitude_message \<noteq> order_message"
  "longitude_message \<noteq> order_message"
  "format_message s e \<noteq> latitude_message"
  "format_message s e \<noteq> longitude_message"
  "format_message s e \<noteq> order_message"
  by (simp_all add: latitude_message_def longitude_message_def order_message_def
      format_message_def)

text \<open>A query that violates a rule raises that rule's message, having built the cached
  session and nothing more.\<close>

lemma validation_failure:
  assumes "first_violation latitude longitude start_date end_date = Some m"
  shows "get_historical_weather_at_given_coordinates weather_api latitude longitude
           start_date end_date field_names
         = (Inl (InvalidParameters m), [CachedSession ''.cache'' (- 1)])"
proof (cases "fromisoformat start_date")
  case None
  with assms show ?thesis
    by (simp add: first_violation_def get_historical_weather_at_given_coordinates_def
        float_greater_def is_iso_calendar_date_iff split: if_splits)
next
  case start: (Some sd)
  show ?thesis
  proof (cases "fromisoformat end_date")
    case None
    with assms start show ?thesis
      by (simp add: first_violation_def get_historical_weather_at_given_coordinates_def
          float_greater_def is_iso_calendar_date_iff split: if_splits)
  next
    case (Some ed)
    with assms start show ?thesis
      by (simp add: first_violation_def get_historical_weather_at_given_coordinates_def
          float_greater_def is_iso_calendar_date_iff split: if_splits)
  qed
qed

text \<open>A query that passes the four rules goes on to the provider and the reshaping.\<close>

lemma validation_pass:
  assumes "first_violation latitude longitude start_date end_date = None"
  shows "get_historical_weather_at_given_coordinates weather_api latitude longitude
           start_date end_date field_names
         = (let prms = \<lparr>param_latitude = latitude, param_longitude = longitude,
                      param_start_date = start_date, param_end_date = end_date,
                      param_hourly = field_names\<rparr>;
             w1 = [CachedSession ''.cache'' (- 1),
                   LoggerInfo (Message ''Calling the Open-Meteo API ...''),
                   WeatherApi url prms]
         in (case weather_api url prms of
          Inl e \<Rightarrow> (Inl (ProviderFailure e), w1)
        | Inr responses \<Rightarrow>
        (case responses of
          [] \<Rightarrow> (Inl IndexError, w1)
        | response # _ \<Rightarrow>
          (let w2 = w1 @
                 [LoggerInfo (Message ''Corresponding input query parameters are:''),
                  LoggerInfo (Coordinates (Latitude response) (Longitude response)),
                  LoggerInfo (ElevationRecord (Elevation response)),
                  LoggerInfo (TimezoneRecord (Timezone response)
                     (TimezoneAbbreviation response)),
                  LoggerInfo (UtcOffsetRecord (UtcOffsetSeconds response))];
               hourly_block = Hourly response
           in (case Variables hourly_block 0 of
            None \<Rightarrow> (Inl AttributeError, w2)
          | Some hourly_snowfall \<Rightarrow>
          (case Variables hourly_block 1 of
            None \<Rightarrow> (Inl AttributeError, w2)
          | Some hourly_wind_speed_10m \<Rightarrow>
          (case Variables hourly_block 2 of
            None \<Rightarrow> (Inl AttributeError, w2)
          | Some hourly_wind_gusts_10m \<Rightarrow>
          (case date_range (Time hourly_block) (TimeEnd hourly_block)
                  (Interval hourly_block) of
            Inl e \<Rightarrow> (Inl e, w2)
          | Inr dates \<Rightarrow>
            (DataFrame
                   [(''date'', Dates dates),
                    (''snowfall'', Values hourly_snowfall),
                    (''wind_speed_10m'', Values hourly_wind_speed_10m),
                    (''wind_gusts_10m'', Values hourly_wind_gusts_10m)], w2)))))))))"
proof -
  from assms obtain sd ed where
    "\<not> float_less latitude (Finite (- 90))" "\<not> float_less (Finite 90) latitude"
    "\<not> float_less longitude (Finite 0)" "\<not> float_less (Finite 180) longitude"
    "fromisoformat start_date = Some sd" "fromisoformat end_date = Some ed"
    "\<not> date_less ed sd"
    by (auto simp add: first_violation_def is_iso_calendar_date_iff split: if_splits)
  then show ?thesis
    by (simp add: get_historical_weather_at_given_coordinates_def float_greater_def Let_def
        split: sum.splits list.splits option.splits)
qed

lemma DataFrame_not_invalid: "DataFrame data \<noteq> Inl (InvalidParameters m)"
  by (simp add: DataFrame_def Let_def)

lemma date_range_not_invalid: "date_range a b c \<noteq> Inl (InvalidParameters m)"
  by (simp add: date_range_def to_datetime_def Timedelta_def)

lemma pass_not_invalid:
  assumes "first_violation latitude longitude start_date end_date = None"
  shows "fst (get_historical_weather_at_given_coordinates weather_api latitude longitude
           start_date end_date field_names) \<noteq> Inl (InvalidParameters m)"
  using date_range_not_invalid
  by (auto simp add: validation_pass [OF assms] Let_def DataFrame_not_invalid
      split: sum.splits list.splits option.splits)

lemma invalid_parameters_iff:
  "fst (get_historical_weather_at_given_coordinates weather_api latitude longitude
         start_date end_date field_names) = Inl (InvalidParameters m)
   \<longleftrightarrow> first_violation latitude longitude start_date end_date = Some m"
proof (cases "first_violation latitude longitude start_date end_date")
  case None
  then show ?thesis using pass_not_invalid [OF None] by simp
next
  case (Some m')
  then show ?thesis by (simp add: validation_failure [OF Some])
qed

lemma pass_calls_provider:
  assumes "first_violation latitude longitude start_date end_date = None"
  shows "take 3 (snd (get_historical_weather_at_given_coordinates weather_api latitude
           longitude start_date end_date field_names))
         = [CachedSession ''.cache'' (- 1),
            LoggerInfo (Message ''Calling the Open-Meteo API ...''),
            WeatherApi url \<lparr>param_latitude = latitude, param_longitude = longitude,
                      param_start_date = start_date, param_end_date = end_date,
                      param_hourly = field_names\<rparr>]"
  by (simp add: validation_pass [OF assms] Let_def
      split: sum.splits list.splits option.splits)

lemma date_range_positive:
  assumes "0 < s" and "0 < N"
    and "- timestamp_bound \<le> T0" and "T0 + int N * s \<le> timestamp_bound"
    and "s \<le> timestamp_bound"
  shows "date_range T0 (T0 + int N * s) s = Inr (map (\<lambda>k. T0 + int k * s) [0..<N])"
proof -
  have pos: "0 < int N * s" using assms(1,2) by simp
  have "(- int N) * s div s = - int N"
    using assms(1) by (intro nonzero_mult_div_cancel_right) simp
  then have d: "- (int N * s) div s = - int N" by simp
  have b: "T0 \<le> timestamp_bound" "- timestamp_bound \<le> T0 + int N * s"
    "- timestamp_bound \<le> s"
    using assms pos by linarith+
  have ne: "T0 \<noteq> T0 + int N * s"
  proof
    assume "T0 = T0 + int N * s"
    then have "int N * s = 0" by linarith
    with pos show False by linarith
  qed
  show ?thesis
    unfolding date_range_def to_datetime_def Timedelta_def
    using assms(1,3,4,5) b ne by (simp add: d)
qed

lemma DataFrame_four:
  "DataFrame [(n0, c0), (n1, c1), (n2, c2), (n3, c3)] =
     (if series_len c1 = series_len c0 \<and> series_len c2 = series_len c0 \<and>
         series_len c3 = series_len c0
      then Inr \<lparr>nrows = series_len c0,
                columns = [(n0, c0), (n1, c1), (n2, c2), (n3, c3)]\<rparr>
      else Inl ValueError)"
  by (auto simp add: DataFrame_def Let_def)

lemma fixture_passes:
  "first_violation (Finite (103 / 2)) (Finite 0) ''2024-01-01'' ''2024-01-02'' = None"
  by (simp add: first_violation_def is_iso_calendar_date_iff fixture_dates date_less_def)


section \<open>The claims\<close>

subsection \<open>C1: columns follow the requested fields\<close>

text \<open>
  Claim C1 says that for every requested field list the table has the column \<open>date\<close>
  followed by one column per requested field in the order of the request, column \<open>i\<close>
  holding response variable \<open>i\<close>. The function sends \<open>field_names\<close> to the provider but
  builds the table from variables 0, 1 and 2 under the fixed names \<open>snowfall\<close>,
  \<open>wind_speed_10m\<close> and \<open>wind_gusts_10m\<close> (lines 114 to 129). Requesting the three fields
  in another order, from a provider that answers positionally, gives a table whose
  columns are still in the fixed order, and whose \<open>snowfall\<close> column holds the wind
  gusts (20, 21, 22), \<open>wind_speed_10m\<close> the snowfall and \<open>wind_gusts_10m\<close> the wind speed.
\<close>

theorem requested_field_order_ignored:
  "fst (get_historical_weather_at_given_coordinates fixture_provider (Finite (103 / 2))
         (Finite 0) ''2024-01-01'' ''2024-01-02''
         [''wind_gusts_10m'', ''snowfall'', ''wind_speed_10m''])
   = Inr \<lparr>nrows = 3,
           columns = [(''date'', Dates [1704067200, 1704070800, 1704074400]),
                      (''snowfall'', Values [20, 21, 22]),
                      (''wind_speed_10m'', Values [0, 0, 1]),
                      (''wind_gusts_10m'', Values [10, 11, 12])]\<rparr>"
  by (simp add: validation_pass [OF fixture_passes] fixture_provider_def fixture_values_def
      date_range_def to_datetime_def Timedelta_def timestamp_bound_def DataFrame_four
      Let_def upt_rec)

subsection \<open>C2: one row per interval step\<close>

text \<open>
  Claim C2 says that for every hourly response reporting \<open>time_start = T0\<close>, an interval
  of \<open>s\<close> seconds, \<open>time_end = T0 + N * s\<close> and value arrays of length \<open>N\<close>, the table has
  exactly \<open>N\<close> rows. It fails at \<open>N = 0\<close>: when the end is the start, the range of
  \<^verbatim>\<open>inclusive="left"\<close> still holds the start, so one timestamp meets arrays of length
  zero and the table constructor raises. Below, the default fields are requested from a
  provider whose response has no observation; the claim promises a table of no rows and
  the call raises \<^verbatim>\<open>ValueError\<close>.
\<close>

theorem hourly_table_rows_counterexample:
  "fst (get_historical_weather_at_given_coordinates empty_provider (Finite (103 / 2))
         (Finite 0) ''2024-01-01'' ''2024-01-02'' default_fields)
   = Inl ValueError"
  by (simp add: validation_pass [OF fixture_passes] empty_provider_def default_fields_def
      date_range_def to_datetime_def Timedelta_def timestamp_bound_def DataFrame_four Let_def)

text \<open>
  Claim C2 as amended: let a call pass validation and request the default fields
  \<open>snowfall\<close>, \<open>wind_speed_10m\<close>, \<open>wind_gusts_10m\<close> in this order, and let the first response
  answer positionally (variable \<open>j\<close> is the array of the \<open>j\<close>-th requested field), every
  array of length \<open>N\<close>, with \<open>time_start = T0\<close>, an interval of \<open>s\<close> seconds and
  \<open>time_end = T0 + N * s\<close>, where \<open>N \<ge> 1\<close>, \<open>s > 0\<close>, and the start, the end and the interval
  are representable by the library. Then the function returns a table of exactly \<open>N\<close>
  rows whose columns are \<open>date\<close> and then the requested fields in order; row \<open>i\<close> carries
  the timestamp \<open>T0 + i * s\<close> and, under each field, entry \<open>i\<close> of that field's array; the
  timestamps ascend in generation order and \<open>time_end\<close> is not among them. (Requests for
  other field lists are the matter of claim C1.)
\<close>

theorem hourly_table_rows:
  assumes pass: "first_violation latitude longitude start_date end_date = None"
    and fields: "field_names = default_fields"
    and api: "weather_api url \<lparr>param_latitude = latitude, param_longitude = longitude,
           param_start_date = start_date, param_end_date = end_date,
           param_hourly = field_names\<rparr> = Inr (response # others)"
    and positional: "\<forall>j<length field_names.
           Variables (Hourly response) j = Some (source (field_names ! j))"
    and lengths: "\<forall>f\<in>set field_names. length (source f) = N"
    and time: "Time (Hourly response) = T0" "Interval (Hourly response) = s"
      "TimeEnd (Hourly response) = T0 + int N * s"
    and positive: "0 < s" "0 < N"
    and bounds: "- timestamp_bound \<le> T0" "T0 + int N * s \<le> timestamp_bound"
      "s \<le> timestamp_bound"
  shows "\<exists>tbl dates.
      fst (get_historical_weather_at_given_coordinates weather_api latitude longitude
             start_date end_date field_names) = Inr tbl
      \<and> nrows tbl = N
      \<and> columns tbl = (''date'', Dates dates) # map (\<lambda>f. (f, Values (source f))) field_names
      \<and> length dates = N
      \<and> (\<forall>i<N. dates ! i = T0 + int i * s)
      \<and> sorted_wrt (<) dates
      \<and> T0 + int N * s \<notin> set dates
      \<and> (\<forall>i<N. row tbl i = Some ((''date'', Instant (T0 + int i * s))
                                 # map (\<lambda>f. (f, Number (source f ! i))) field_names))
      \<and> row tbl N = None"
proof -
  let ?dates = "map (\<lambda>k. T0 + int k * s) [0..<N]"
  let ?a0 = "source ''snowfall''"
  let ?a1 = "source ''wind_speed_10m''"
  let ?a2 = "source ''wind_gusts_10m''"
  let ?tbl = "\<lparr>nrows = N,
      columns = [(''date'', Dates ?dates), (''snowfall'', Values ?a0),
                 (''wind_speed_10m'', Values ?a1), (''wind_gusts_10m'', Values ?a2)]\<rparr>"
  from positional have v: "Variables (Hourly response) 0 = Some ?a0"
    "Variables (Hourly response) 1 = Some ?a1" "Variables (Hourly response) 2 = Some ?a2"
    by (simp_all add: fields default_fields_def)
  from lengths have l: "length ?a0 = N" "length ?a1 = N" "length ?a2 = N"
    by (simp_all add: fields default_fields_def)
  have range: "date_range (Time (Hourly response)) (TimeEnd (Hourly response))
      (Interval (Hourly response)) = Inr ?dates"
    unfolding time by (rule date_range_positive [OF positive bounds])
  have res: "fst (get_historical_weather_at_given_coordinates weather_api latitude longitude
             start_date end_date field_names) = Inr ?tbl"
    using api v l
    by (simp add: validation_pass [OF pass] range DataFrame_four Let_def)
  have cols: "columns ?tbl
      = (''date'', Dates ?dates) # map (\<lambda>f. (f, Values (source f))) field_names"
    by (simp add: fields default_fields_def)
  have sorted: "sorted_wrt (<) ?dates"
    using \<open>0 < s\<close> by (simp add: sorted_wrt_map sorted_wrt_iff_nth_less)
  have excl: "T0 + int N * s \<notin> set ?dates"
    using \<open>0 < s\<close> by auto
  have rows: "\<forall>i<N. row ?tbl i = Some ((''date'', Instant (T0 + int i * s))
                                 # map (\<lambda>f. (f, Number (source f ! i))) field_names)"
    by (simp add: row_def fields default_fields_def)
  have last: "row ?tbl N = None" by (simp add: row_def)
  show ?thesis
    apply (rule exI [of _ ?tbl])
    apply (rule exI [of _ ?dates])
    using res cols sorted excl rows last by simp
qed

text \<open>The fixture: the default fields, three hourly observations, read back row by row.\<close>

theorem hourly_table_rows_witness:
  "first_violation (Finite (103 / 2)) (Finite 0) ''2024-01-01'' ''2024-01-02'' = None
   \<and> (0::int) < 3600 \<and> (0::nat) < 3
   \<and> - timestamp_bound \<le> 1704067200 \<and> 1704067200 + int 3 * 3600 \<le> timestamp_bound
   \<and> 3600 \<le> timestamp_bound
   \<and> (\<exists>tbl. fst (get_historical_weather_at_given_coordinates fixture_provider
          (Finite (103 / 2)) (Finite 0) ''2024-01-01'' ''2024-01-02'' default_fields) = Inr tbl
        \<and> nrows tbl = 3
        \<and> map fst (columns tbl) = ''date'' # default_fields
        \<and> row tbl 0 = Some [(''date'', Instant 1704067200), (''snowfall'', Number 0),
              (''wind_speed_10m'', Number 10), (''wind_gusts_10m'', Number 20)]
        \<and> row tbl 2 = Some [(''date'', Instant 1704074400), (''snowfall'', Number 1),
              (''wind_speed_10m'', Number 12), (''wind_gusts_10m'', Number 22)]
        \<and> row tbl 3 = None)"
proof -
  let ?prms = "\<lparr>param_latitude = Finite (103 / 2), param_longitude = Finite 0,
     param_start_date = ''2024-01-01'', param_end_date = ''2024-01-02'',
     param_hourly = default_fields\<rparr>"
  obtain response where r: "fixture_provider url ?prms = Inr (response # [])"
    and t: "Time (Hourly response) = 1704067200" "Interval (Hourly response) = 3600"
      "TimeEnd (Hourly response) = 1704067200 + int 3 * 3600"
    and v: "\<forall>j<length default_fields.
        Variables (Hourly response) j = Some (fixture_values (default_fields ! j))"
    by (simp add: fixture_provider_def)
  have l: "\<forall>f\<in>set default_fields. length (fixture_values f) = 3"
    by (simp add: default_fields_def fixture_values_def)
  have p: "(0::int) < 3600" "(0::nat) < 3" by simp_all
  have b: "- timestamp_bound \<le> 1704067200" "1704067200 + int 3 * 3600 \<le> timestamp_bound"
    "3600 \<le> timestamp_bound"
    by (simp_all add: timestamp_bound_def)
  from hourly_table_rows [where weather_api = fixture_provider
      and latitude = "Finite (103 / 2)" and longitude = "Finite 0"
      and start_date = "''2024-01-01''" and end_date = "''2024-01-02''"
      and field_names = default_fields and response = response and others = "[]"
      and source = fixture_values and ?T0.0 = 1704067200 and s = 3600 and N = 3,
      OF fixture_passes refl r v l t p b]
  obtain tbl where
    "fst (get_historical_weather_at_given_coordinates fixture_provider
          (Finite (103 / 2)) (Finite 0) ''2024-01-01'' ''2024-01-02'' default_fields) = Inr tbl"
    "nrows tbl = 3"
    "map fst (columns tbl) = ''date'' # default_fields"
    "\<forall>i<3. row tbl i = Some ((''date'', Instant (1704067200 + int i * 3600))
        # map (\<lambda>f. (f, Number (fixture_values f ! i))) default_fields)"
    "row tbl 3 = None"
    by (auto simp add: comp_def)
  then show ?thesis
    using fixture_passes b
    by (intro conjI exI [of _ tbl]) (simp_all add: default_fields_def fixture_values_def)
qed

subsection \<open>C3: valid queries pass validation\<close>

text \<open>
  Claim C3: for every latitude in \<open>[-90, 90]\<close>, every longitude in \<open>[0, 180]\<close> and every
  pair of date strings that are the texts of calendar dates with the end date not before
  the start date, the function raises no \<open>InvalidParameters\<close>, whatever its message.
\<close>

theorem valid_query_passes_validation:
  assumes "latitude_in_range latitude" and "longitude_in_range longitude"
    and "valid_date start_date_parsed" and "valid_date end_date_parsed"
    and "\<not> date_less end_date_parsed start_date_parsed"
  shows "fst (get_historical_weather_at_given_coordinates weather_api latitude longitude
           (isoformat start_date_parsed) (isoformat end_date_parsed) field_names)
         \<noteq> Inl (InvalidParameters m)"
proof -
  have "first_violation latitude longitude (isoformat start_date_parsed)
          (isoformat end_date_parsed) = None"
    using assms latitude_in_range_less [OF assms(1)] longitude_in_range_less [OF assms(2)]
    by (simp add: first_violation_def is_iso_calendar_date_iff fromisoformat_isoformat)
  then show ?thesis by (rule pass_not_invalid)
qed

text \<open>The boundary values: latitude \<open>-90\<close>, longitude \<open>180\<close>, equal start and end dates.\<close>

theorem valid_query_passes_validation_witness:
  "latitude_in_range (Finite (- 90)) \<and> longitude_in_range (Finite 180)
   \<and> valid_date \<lparr>year = 2024, month = 2, day = 29\<rparr>
   \<and> \<not> date_less \<lparr>year = 2024, month = 2, day = 29\<rparr> \<lparr>year = 2024, month = 2, day = 29\<rparr>
   \<and> (\<forall>m. fst (get_historical_weather_at_given_coordinates failing_provider
         (Finite (- 90)) (Finite 180) ''2024-02-29'' ''2024-02-29'' [])
         \<noteq> Inl (InvalidParameters m))"
proof -
  let ?d = "\<lparr>year = 2024, month = 2, day = 29\<rparr>"
  have h1: "latitude_in_range (Finite (- 90))" by (simp add: latitude_in_range_def)
  have h2: "longitude_in_range (Finite 180)" by (simp add: longitude_in_range_def)
  have h3: "valid_date ?d" by (simp add: valid_date_def days_in_month_def is_leap_def)
  have h4: "\<not> date_less ?d ?d" by (simp add: date_less_def)
  show ?thesis
    using h1 h2 h3 h4
      valid_query_passes_validation [OF h1 h2 h3 h3 h4, where weather_api = failing_provider
        and field_names = "[]"]
    by (simp add: isoformat_fixture)
qed

subsection \<open>C4: the date-format error\<close>

text \<open>
  Claim C4: with latitude and longitude in range, the function raises
  \<open>InvalidParameters\<close> with the message that names both date strings and the expected
  format if and only if one of the two strings is not a valid ISO calendar date of the
  form \<^verbatim>\<open>YYYY-MM-DD\<close>.
\<close>

theorem date_format_error_iff:
  assumes "latitude_in_range latitude" and "longitude_in_range longitude"
  shows "fst (get_historical_weather_at_given_coordinates weather_api latitude longitude
           start_date end_date field_names)
         = Inl (InvalidParameters (format_message start_date end_date))
     \<longleftrightarrow> \<not> is_iso_calendar_date start_date \<or> \<not> is_iso_calendar_date end_date"
  using latitude_in_range_less [OF assms(1)] longitude_in_range_less [OF assms(2)]
  by (simp add: invalid_parameters_iff first_violation_def messages_distinct
      messages_distinct [symmetric])

text \<open>The malformed date of the specification's example, a week date, an undelimited
  date, and two well-formed dates.\<close>

theorem date_format_error_iff_witness:
  "latitude_in_range (Finite (103 / 2)) \<and> longitude_in_range (Finite 0)
   \<and> \<not> is_iso_calendar_date ''2024-13-40''
   \<and> fst (get_historical_weather_at_given_coordinates failing_provider (Finite (103 / 2))
         (Finite 0) ''2024-13-40'' ''2024-01-02'' [])
       = Inl (InvalidParameters (format_message ''2024-13-40'' ''2024-01-02''))
   \<and> \<not> is_iso_calendar_date ''2024-W01-1''
   \<and> fst (get_historical_weather_at_given_coordinates failing_provider (Finite (103 / 2))
         (Finite 0) ''2024-01-01'' ''2024-W01-1'' [])
       = Inl (InvalidParameters (format_message ''2024-01-01'' ''2024-W01-1''))
   \<and> \<not> is_iso_calendar_date ''20240101''
   \<and> fst (get_historical_weather_at_given_coordinates failing_provider (Finite (103 / 2))
         (Finite 0) ''20240101'' ''2024-01-02'' [])
       = Inl (InvalidParameters (format_message ''20240101'' ''2024-01-02''))
   \<and> is_iso_calendar_date ''2024-01-01'' \<and> is_iso_calendar_date ''2024-01-02''
   \<and> fst (get_historical_weather_at_given_coordinates failing_provider (Finite (103 / 2))
         (Finite 0) ''2024-01-01'' ''2024-01-02'' [])
       \<noteq> Inl (InvalidParameters (format_message ''2024-01-01'' ''2024-01-02''))"
proof -
  have h1: "latitude_in_range (Finite (103 / 2))" by (simp add: latitude_in_range_def)
  have h2: "longitude_in_range (Finite 0)" by (simp add: longitude_in_range_def)
  have h3: "\<not> is_iso_calendar_date ''2024-13-40''"
    "\<not> is_iso_calendar_date ''2024-W01-1''" "\<not> is_iso_calendar_date ''20240101''"
    "is_iso_calendar_date ''2024-01-01''" "is_iso_calendar_date ''2024-01-02''"
    by (simp_all add: is_iso_calendar_date_iff fixture_dates)
  show ?thesis
    using h1 h2 h3
      date_format_error_iff [OF h1 h2, where weather_api = failing_provider
        and start_date = "''2024-13-40''" and end_date = "''2024-01-02''"
        and field_names = "[]"]
      date_format_error_iff [OF h1 h2, where weather_api = failing_provider
        and start_date = "''2024-01-01''" and end_date = "''2024-W01-1''"
        and field_names = "[]"]
      date_format_error_iff [OF h1 h2, where weather_api = failing_provider
        and start_date = "''20240101''" and end_date = "''2024-01-02''"
        and field_names = "[]"]
      date_format_error_iff [OF h1 h2, where weather_api = failing_provider
        and start_date = "''2024-01-01''" and end_date = "''2024-01-02''"
        and field_names = "[]"]
    by simp
qed

subsection \<open>C5: longitude out of range\<close>

text \<open>
  Claim C5: for every latitude in range, every longitude strictly below 0 or strictly
  above 180 raises \<open>InvalidParameters\<close> with the longitude message, and the longitudes 0
  and 180 never do.
\<close>

theorem longitude_out_of_range_rejected:
  assumes "latitude_in_range latitude"
  shows "(float_less longitude (Finite 0) \<or> float_less (Finite 180) longitude \<longrightarrow>
      fst (get_historical_weather_at_given_coordinates weather_api latitude longitude
             start_date end_date field_names) = Inl (InvalidParameters longitude_message))
   \<and> fst (get_historical_weather_at_given_coordinates weather_api latitude (Finite 0)
             start_date end_date field_names) \<noteq> Inl (InvalidParameters longitude_message)
   \<and> fst (get_historical_weather_at_given_coordinates weather_api latitude (Finite 180)
             start_date end_date field_names) \<noteq> Inl (InvalidParameters longitude_message)"
  using latitude_in_range_less [OF assms]
  by (simp add: invalid_parameters_iff first_violation_def messages_distinct
      messages_distinct [symmetric])

text \<open>The coordinates of London, longitude \<open>-0.1278\<close>.\<close>

theorem longitude_out_of_range_rejected_witness:
  "latitude_in_range (Finite (515074 / 10000))
   \<and> float_less (Finite (- 1278 / 10000)) (Finite 0)
   \<and> fst (get_historical_weather_at_given_coordinates failing_provider
         (Finite (515074 / 10000)) (Finite (- 1278 / 10000))
         ''2023-01-01'' ''2023-01-31'' []) = Inl (InvalidParameters longitude_message)"
proof -
  have h: "latitude_in_range (Finite (515074 / 10000))"
    by (simp add: latitude_in_range_def)
  show ?thesis
    using h longitude_out_of_range_rejected [OF h, where longitude = "Finite (- 1278 / 10000)"
        and weather_api = failing_provider
        and start_date = "''2023-01-01''" and end_date = "''2023-01-31''"
        and field_names = "[]"]
    by simp
qed

subsection \<open>C6: latitude out of range\<close>

text \<open>
  Claim C6: every latitude strictly below \<open>-90\<close> or strictly above 90 raises
  \<open>InvalidParameters\<close> with the latitude message, whatever the other arguments; the
  latitudes \<open>-90\<close> and 90 never raise it.
\<close>

theorem latitude_out_of_range_rejected:
  "(float_less latitude (Finite (- 90)) \<or> float_less (Finite 90) latitude \<longrightarrow>
      fst (get_historical_weather_at_given_coordinates weather_api latitude longitude
             start_date end_date field_names) = Inl (InvalidParameters latitude_message))
   \<and> fst (get_historical_weather_at_given_coordinates weather_api (Finite (- 90)) longitude
             start_date end_date field_names) \<noteq> Inl (InvalidParameters latitude_message)
   \<and> fst (get_historical_weather_at_given_coordinates weather_api (Finite 90) longitude
             start_date end_date field_names) \<noteq> Inl (InvalidParameters latitude_message)"
  by (simp add: invalid_parameters_iff first_violation_def messages_distinct
      messages_distinct [symmetric])

text \<open>Latitudes 91 and \<open>-91\<close>.\<close>

theorem latitude_out_of_range_rejected_witness:
  "float_less (Finite 90) (Finite 91)
   \<and> fst (get_historical_weather_at_given_coordinates failing_provider (Finite 91) (Finite 0)
         ''2024-01-01'' ''2024-01-02'' []) = Inl (InvalidParameters latitude_message)
   \<and> float_less (Finite (- 91)) (Finite (- 90))
   \<and> fst (get_historical_weather_at_given_coordinates failing_provider (Finite (- 91))
         (Finite 0) ''2024-01-01'' ''2024-01-02'' []) = Inl (InvalidParameters latitude_message)"
  using latitude_out_of_range_rejected [where latitude = "Finite 91"
      and weather_api = failing_provider and longitude = "Finite 0"
      and start_date = "''2024-01-01''" and end_date = "''2024-01-02''" and field_names = "[]"]
    latitude_out_of_range_rejected [where latitude = "Finite (- 91)"
      and weather_api = failing_provider and longitude = "Finite 0"
      and start_date = "''2024-01-01''" and end_date = "''2024-01-02''" and field_names = "[]"]
  by simp

subsection \<open>C7: end date before start date\<close>

text \<open>
  Claim C7: with coordinates in range and two date strings that parse, the function
  raises \<open>InvalidParameters\<close> with the message that the end date cannot be before the
  start date if and only if the parsed end date is strictly earlier than the parsed
  start date; equal dates raise no \<open>InvalidParameters\<close> at all.
\<close>

theorem date_order_error_iff:
  assumes "latitude_in_range latitude" and "longitude_in_range longitude"
    and "fromisoformat start_date = Some start_date_parsed"
    and "fromisoformat end_date = Some end_date_parsed"
  shows "(fst (get_historical_weather_at_given_coordinates weather_api latitude longitude
           start_date end_date field_names) = Inl (InvalidParameters order_message)
          \<longleftrightarrow> date_less end_date_parsed start_date_parsed)
     \<and> (end_date_parsed = start_date_parsed \<longrightarrow>
          (\<forall>m. fst (get_historical_weather_at_given_coordinates weather_api latitude longitude
           start_date end_date field_names) \<noteq> Inl (InvalidParameters m)))"
  using latitude_in_range_less [OF assms(1)] longitude_in_range_less [OF assms(2)] assms(3,4)
  by (simp add: invalid_parameters_iff first_violation_def is_iso_calendar_date_iff
      date_less_def)

text \<open>The specification's example, February before January, and two equal dates.\<close>

theorem date_order_error_iff_witness:
  "latitude_in_range (Finite (103 / 2)) \<and> longitude_in_range (Finite 0)
   \<and> fromisoformat ''2024-02-01'' = Some \<lparr>year = 2024, month = 2, day = 1\<rparr>
   \<and> fromisoformat ''2024-01-01'' = Some \<lparr>year = 2024, month = 1, day = 1\<rparr>
   \<and> date_less \<lparr>year = 2024, month = 1, day = 1\<rparr> \<lparr>year = 2024, month = 2, day = 1\<rparr>
   \<and> fst (get_historical_weather_at_given_coordinates failing_provider (Finite (103 / 2))
         (Finite 0) ''2024-02-01'' ''2024-01-01'' []) = Inl (InvalidParameters order_message)
   \<and> (\<forall>m. fst (get_historical_weather_at_given_coordinates failing_provider
         (Finite (103 / 2)) (Finite 0) ''2024-01-01'' ''2024-01-01'' [])
       \<noteq> Inl (InvalidParameters m))"
proof -
  have h1: "latitude_in_range (Finite (103 / 2))" by (simp add: latitude_in_range_def)
  have h2: "longitude_in_range (Finite 0)" by (simp add: longitude_in_range_def)
  have h3: "date_less \<lparr>year = 2024, month = 1, day = 1\<rparr> \<lparr>year = 2024, month = 2, day = 1\<rparr>"
    by (simp add: date_less_def)
  show ?thesis
    using h1 h2 h3
      date_order_error_iff [OF h1 h2 fixture_dates(3) fixture_dates(1),
        where weather_api = failing_provider and field_names = "[]"]
      date_order_error_iff [OF h1 h2 fixture_dates(1) fixture_dates(1),
        where weather_api = failing_provider and field_names = "[]"]
    by (simp add: fixture_dates)
qed

subsection \<open>C8: order of the checks and effects of a failure\<close>

text \<open>
  Claim C8 says that the checks run in the order latitude, longitude, date format, date
  order, that the first violated rule raises alone, before any network call, and that a
  validation failure has no side effect beyond raising. The last part fails: the cached
  session is built on line 61, before the first check, so a call that fails validation
  has already opened the on-disk cache.
\<close>

theorem validation_failure_effect_counterexample:
  "get_historical_weather_at_given_coordinates failing_provider (Finite 91) (Finite 0)
         ''2024-01-01'' ''2024-01-02'' []
   = (Inl (InvalidParameters latitude_message), [CachedSession ''.cache'' (- 1)])"
  by (simp add: get_historical_weather_at_given_coordinates_def float_greater_def)

text \<open>
  Claim C8 as amended: the function raises \<open>InvalidParameters\<close> with message \<open>m\<close> exactly
  when \<open>m\<close> is the message of the first rule violated, in the order latitude, longitude,
  date format, date order; and a call that violates a rule has built the cached session
  and done nothing else: no log record is written and the provider is not called.
\<close>

theorem validation_order_and_effects:
  "(fst (get_historical_weather_at_given_coordinates weather_api latitude longitude
         start_date end_date field_names) = Inl (InvalidParameters m)
     \<longleftrightarrow> first_violation latitude longitude start_date end_date = Some m)
   \<and> (first_violation latitude longitude start_date end_date \<noteq> None \<longrightarrow>
        snd (get_historical_weather_at_given_coordinates weather_api latitude longitude
         start_date end_date field_names) = [CachedSession ''.cache'' (- 1)])"
  by (auto simp add: invalid_parameters_iff validation_failure)

text \<open>A query that violates three rules raises the first; without the first, the second.\<close>

theorem validation_order_and_effects_witness:
  "first_violation (Finite 91) (Finite 181) ''2024-13-40'' ''2024-01-02''
     = Some latitude_message
   \<and> get_historical_weather_at_given_coordinates failing_provider (Finite 91) (Finite 181)
         ''2024-13-40'' ''2024-01-02'' []
     = (Inl (InvalidParameters latitude_message), [CachedSession ''.cache'' (- 1)])
   \<and> first_violation (Finite 0) (Finite 181) ''2024-13-40'' ''2024-01-02''
     = Some longitude_message
   \<and> get_historical_weather_at_given_coordinates failing_provider (Finite 0) (Finite 181)
         ''2024-13-40'' ''2024-01-02'' []
     = (Inl (InvalidParameters longitude_message), [CachedSession ''.cache'' (- 1)])"
proof -
  have h1: "first_violation (Finite 91) (Finite 181) ''2024-13-40'' ''2024-01-02''
     = Some latitude_message"
    by (simp add: first_violation_def)
  have h2: "first_violation (Finite 0) (Finite 181) ''2024-13-40'' ''2024-01-02''
     = Some longitude_message"
    by (simp add: first_violation_def)
  show ?thesis
    using h1 h2
      validation_order_and_effects [where weather_api = failing_provider
        and latitude = "Finite 91" and longitude = "Finite 181"
        and start_date = "''2024-13-40''" and end_date = "''2024-01-02''"
        and field_names = "[]" and m = latitude_message]
      validation_order_and_effects [where weather_api = failing_provider
        and latitude = "Finite 0" and longitude = "Finite 181"
        and start_date = "''2024-13-40''" and end_date = "''2024-01-02''"
        and field_names = "[]" and m = longitude_message]
    by (simp add: prod_eq_iff)
qed

subsection \<open>C9: a complete table or no table\<close>



subsection \<open>C10: NaN coordinates\<close>

text \<open>
  Claim C10: with dates that parse and are in order, a NaN latitude beside a longitude
  in range, and a NaN longitude beside a latitude in range, raise no
  \<open>InvalidParameters\<close>; the call goes on to log and to request the provider with the NaN
  among the parameters.
\<close>

theorem nan_coordinates_pass_validation:
  assumes "fromisoformat start_date = Some start_date_parsed"
    and "fromisoformat end_date = Some end_date_parsed"
    and "\<not> date_less end_date_parsed start_date_parsed"
  shows "(longitude_in_range longitude \<longrightarrow>
           (\<forall>m. fst (get_historical_weather_at_given_coordinates weather_api NaN longitude
                  start_date end_date field_names) \<noteq> Inl (InvalidParameters m))
           \<and> take 3 (snd (get_historical_weather_at_given_coordinates weather_api NaN longitude
                  start_date end_date field_names))
             = [CachedSession ''.cache'' (- 1),
                LoggerInfo (Message ''Calling the Open-Meteo API ...''),
                WeatherApi url \<lparr>param_latitude = NaN, param_longitude = longitude,
                      param_start_date = start_date, param_end_date = end_date,
                      param_hourly = field_names\<rparr>])
     \<and> (latitude_in_range latitude \<longrightarrow>
           (\<forall>m. fst (get_historical_weather_at_given_coordinates weather_api latitude NaN
                  start_date end_date field_names) \<noteq> Inl (InvalidParameters m))
           \<and> take 3 (snd (get_historical_weather_at_given_coordinates weather_api latitude NaN
                  start_date end_date field_names))
             = [CachedSession ''.cache'' (- 1),
                LoggerInfo (Message ''Calling the Open-Meteo API ...''),
                WeatherApi url \<lparr>param_latitude = latitude, param_longitude = NaN,
                      param_start_date = start_date, param_end_date = end_date,
                      param_hourly = field_names\<rparr>])"
proof -
  have a: "first_violation NaN longitude start_date end_date = None"
    if "longitude_in_range longitude"
    using assms longitude_in_range_less [OF that]
    by (simp add: first_violation_def is_iso_calendar_date_iff)
  have b: "first_violation latitude NaN start_date end_date = None"
    if "latitude_in_range latitude"
    using assms latitude_in_range_less [OF that]
    by (simp add: first_violation_def is_iso_calendar_date_iff)
  show ?thesis
    using pass_not_invalid [OF a] pass_calls_provider [OF a]
      pass_not_invalid [OF b] pass_calls_provider [OF b]
    by blast
qed

text \<open>Each of the two coordinates as NaN.\<close>

theorem nan_coordinates_pass_validation_witness:
  "fromisoformat ''2024-01-01'' = Some \<lparr>year = 2024, month = 1, day = 1\<rparr>
   \<and> fromisoformat ''2024-01-02'' = Some \<lparr>year = 2024, month = 1, day = 2\<rparr>
   \<and> \<not> date_less \<lparr>year = 2024, month = 1, day = 2\<rparr> \<lparr>year = 2024, month = 1, day = 1\<rparr>
   \<and> longitude_in_range (Finite 0)
   \<and> take 3 (snd (get_historical_weather_at_given_coordinates failing_provider NaN
         (Finite 0) ''2024-01-01'' ''2024-01-02'' [''snowfall'']))
       = [CachedSession ''.cache'' (- 1),
          LoggerInfo (Message ''Calling the Open-Meteo API ...''),
          WeatherApi url \<lparr>param_latitude = NaN, param_longitude = Finite 0,
             param_start_date = ''2024-01-01'', param_end_date = ''2024-01-02'',
             param_hourly = [''snowfall'']\<rparr>]
   \<and> latitude_in_range (Finite (103 / 2))
   \<and> take 3 (snd (get_historical_weather_at_given_coordinates failing_provider
         (Finite (103 / 2)) NaN ''2024-01-01'' ''2024-01-02'' [''snowfall'']))
       = [CachedSession ''.cache'' (- 1),
          LoggerInfo (Message ''Calling the Open-Meteo API ...''),
          WeatherApi url \<lparr>param_latitude = Finite (103 / 2), param_longitude = NaN,
             param_start_date = ''2024-01-01'', param_end_date = ''2024-01-02'',
             param_hourly = [''snowfall'']\<rparr>]"
proof -
  have h: "\<not> date_less \<lparr>year = 2024, month = 1, day = 2\<rparr> \<lparr>year = 2024, month = 1, day = 1\<rparr>"
    by (simp add: date_less_def)
  have h1: "longitude_in_range (Finite 0)" by (simp add: longitude_in_range_def)
  have h2: "latitude_in_range (Finite (103 / 2))" by (simp add: latitude_in_range_def)
  show ?thesis
    using h h1 h2
      nan_coordinates_pass_validation [OF fixture_dates(1) fixture_dates(2) h,
        where weather_api = failing_provider and longitude = "Finite 0"
        and latitude = "Finite (103 / 2)" and field_names = "[''snowfall'']"]
    by (simp add: fixture_dates)
qed

end
